theory Spec2Isabelle
  imports Main "HOL-Library.AList"
begin

section \<open>JavaScript values, objects and the store\<close>

text \<open>
  The library selector of \<^verbatim>\<open>src/scripts/h5peditor-library.js\<close> works on plain data
  objects that are shared by reference. A value is a primitive or a reference into a
  store of objects; strict equality \<^verbatim>\<open>===\<close> is equality of these values (references
  compare by address; NaN and floating point are not modelled, numbers are integers).
  An object is the list of its own enumerable properties in insertion order.
\<close>

type_synonym addr = nat

datatype jsval = JUndefined | JNull | JBool bool | JNum int | JStr string | JRef addr

fun truthy :: "jsval \<Rightarrow> bool" where
  "truthy JUndefined = False"
| "truthy JNull = False"
| "truthy (JBool b) = b"
| "truthy (JNum n) = (n \<noteq> 0)"
| "truthy (JStr s) = (s \<noteq> [])"
| "truthy (JRef a) = True"

type_synonym obj = "(string \<times> jsval) list"

type_synonym heap = "obj list"

definition deref :: "heap \<Rightarrow> addr \<Rightarrow> obj" where
  "deref h a = (if a < length h then h ! a else [])"

definition store :: "heap \<Rightarrow> addr \<Rightarrow> obj \<Rightarrow> heap" where
  "store h a ob = h[a := ob]"

definition alloc :: "heap \<Rightarrow> obj \<Rightarrow> addr \<times> heap" where
  "alloc h ob = (length h, h @ [ob])"

definition get_prop :: "obj \<Rightarrow> string \<Rightarrow> jsval" where
  "get_prop ob k = (case map_of ob k of None \<Rightarrow> JUndefined | Some v \<Rightarrow> v)"

definition hasOwnProperty :: "obj \<Rightarrow> string \<Rightarrow> bool" where
  "hasOwnProperty ob k = (k \<in> set (map fst ob))"

definition set_prop :: "string \<Rightarrow> jsval \<Rightarrow> obj \<Rightarrow> obj" where
  "set_prop k v ob = AList.update k v ob"

definition delete_prop :: "string \<Rightarrow> obj \<Rightarrow> obj" where
  "delete_prop k ob = AList.delete k ob"

text \<open>
  \<open>read_prop h v k\<close> is the property access \<^verbatim>\<open>v.k\<close> on a truthy receiver \<open>v\<close>: a
  reference is looked up in the store, a truthy primitive (a string, a number, \<^verbatim>\<open>true\<close>)
  has none of the property names used here. It is only applied where the source has
  already tested the receiver for truthiness, or to the parameter object.
\<close>

fun read_prop :: "heap \<Rightarrow> jsval \<Rightarrow> string \<Rightarrow> jsval" where
  "read_prop h (JRef a) k = get_prop (deref h a) k"
| "read_prop h v k = JUndefined"

datatype error = TypeError

section \<open>The selector's data\<close>

text \<open>
  A library descriptor, with the fields this file reads. \<open>uberName\<close> is the key of a
  library (\<^verbatim>\<open>MachineName major.minor\<close>) and always a string; \<open>title\<close> and
  \<open>restricted\<close> may be undefined, which the code tests for.
\<close>

record descriptor =
  uberName :: string
  title :: jsval
  restricted :: jsval
  metadata :: jsval

text \<open>
  A child field instance built by the form renderer: the value its \<^verbatim>\<open>validate()\<close>
  returns, whether its rendering is still attached to the document, and whether it has
  an \<^verbatim>\<open>$item\<close>.
\<close>

record child =
  validate_result :: jsval
  attached :: bool
  has_item :: bool

record metadata_form =
  mf_children :: "child list option"
  mf_button_at :: "nat option"

text \<open>An element of a jQuery selection, with the two things the selector changes.\<close>

record element =
  disabled :: bool
  hidden :: bool

record select_option =
  opt_value :: string
  opt_text :: jsval
  opt_selected :: bool

type_synonym callback = nat

text \<open>
  An entry of the ancestor's common-fields table: whether the shared instance has been
  removed, the selectors that refer to the field (by identity) and their setters.
\<close>

record common_field =
  instance_removed :: bool
  parents :: "nat list"
  setValues :: "nat list"

text \<open>
  The prototype of an object: \<^verbatim>\<open>Object.prototype\<close> (every object literal and every
  parsed object has it), none at all, or another object of the store. Only an
  assignment to the key \<^verbatim>\<open>__proto__\<close> changes it, and the only assignments with a
  computed key in this file are those of the paste to the parameter object.
\<close>

datatype proto = ObjectPrototype | NullPrototype | ObjectAt addr

text \<open>
  The state: the fields of the selector object (\<^verbatim>\<open>this\<close>), the part of the document
  it owns, and the world it acts on (the object store, the implicit global variable
  \<^verbatim>\<open>library\<close>, the console, the trace of callback invocations, the schema fetches
  requested from \<^verbatim>\<open>ns.loadLibrary\<close> and the ancestor's common-fields table).
  \<open>self_id\<close> is the identity of the selector object, \<open>params\<close> the reference held in
  \<^verbatim>\<open>this.params\<close>, \<open>params_proto\<close> the prototype of the parameter object (the
  operations that read the parameter object by a fixed key are modelled on its own
  properties). Fields that are undefined in JavaScript until assigned are options;
  \<open>runChangeCallback\<close> is only ever compared with \<^verbatim>\<open>=== true\<close>, so undefined is
  \<open>False\<close>. The selection and wrapper elements exist from \<^verbatim>\<open>appendTo\<close> on; the
  operations below are those of an appended selector.
\<close>

record library =
  self_id :: nat
  params :: addr
  field_optional :: jsval
  changes :: "callback list"
  libraries :: "descriptor list option"
  currentLibrary :: "string option"
  runChangeCallback :: bool
  children :: "child list option"
  metadataForm :: "metadata_form option"
  libraryName :: jsval
  metadataFormWrapper :: bool
  metadataButton :: bool
  select_options :: "select_option list"
  select_hidden :: bool
  label_hidden :: bool
  wrapper_class :: string
  copyButton :: "element list option"
  pasteButton :: "element list option"
  heap :: heap
  global_library :: jsval
  console :: "string list"
  calls :: "(callback \<times> descriptor option) list"
  fetches :: "(string \<times> jsval) list"
  commonFields :: "(string \<times> (string \<times> common_field) list) list"
  params_proto :: proto

text \<open>
  An operation returns, or throws; a throw keeps the state as it was at that moment
  (what was mutated before the exception stays mutated).
\<close>

datatype outcome = Returned library | Threw error library

fun state_of :: "outcome \<Rightarrow> library" where
  "state_of (Returned s) = s"
| "state_of (Threw e s) = s"

fun and_then :: "outcome \<Rightarrow> (library \<Rightarrow> outcome) \<Rightarrow> outcome" where
  "and_then (Returned s) f = f s"
| "and_then (Threw e s) f = Threw e s"

fun throws :: "outcome \<Rightarrow> bool" where
  "throws (Returned s) = False"
| "throws (Threw e s) = True"

text \<open>What the environment provides: \<^verbatim>\<open>window.localStorage\<close> and \<^verbatim>\<open>ns.enableMetadata\<close>.\<close>

record env =
  localStorage :: bool
  enableMetadata :: "string \<Rightarrow> bool"

section \<open>Construction and appendTo\<close>

text \<open>
  The constructor (lines 20-74). Without parameters it creates the parameter object
  \<^verbatim>\<open>{params: {}}\<close>; otherwise it keeps the reference it is given. This is the only
  assignment to \<^verbatim>\<open>this.params\<close> in the file. \<^verbatim>\<open>this.libraryName\<close> is not assigned
  here or anywhere else. The traces start empty.
\<close>

definition Library :: "nat \<Rightarrow> heap \<Rightarrow> jsval \<Rightarrow> addr option \<Rightarrow> library" where
  "Library ident h optional ps =
     (let (p, h') =
            (case ps of
               None \<Rightarrow>
                 (let (a, h1) = alloc h [] in alloc h1 [(''params'', JRef a)])
             | Some q \<Rightarrow> (q, h))
      in \<lparr>self_id = ident, params = p, field_optional = optional, changes = [],
          libraries = None, currentLibrary = None, runChangeCallback = False,
          children = None, metadataForm = None, libraryName = JUndefined,
          metadataFormWrapper = False, metadataButton = False,
          select_options = [], select_hidden = False, label_hidden = False,
          wrapper_class = [], copyButton = None, pasteButton = None,
          heap = h', global_library = JUndefined, console = [], calls = [],
          fetches = [], commonFields = [], params_proto = ObjectPrototype\<rparr>)"

text \<open>
  Modelled from the spec: the markup helper \<^verbatim>\<open>ns.createOption\<close> is not in the source;
  an option of the rendered list is its value, its text and its selected mark.
\<close>

definition createOption :: "string \<Rightarrow> jsval \<Rightarrow> bool \<Rightarrow> select_option" where
  "createOption v t s = \<lparr>opt_value = v, opt_text = t, opt_selected = s\<rparr>"

text \<open>
  \<^verbatim>\<open>enableCopyAndPaste\<close> (lines 112-142). Its argument is the ancestor selector's current
  library as parsed by \<^verbatim>\<open>ns.libraryFromString\<close>, or \<open>None\<close> when the ancestor has no
  current library.
\<close>

record libver =
  machineName :: string
  majorVersion :: int
  minorVersion :: int

definition copy_paste_config :: "string \<Rightarrow> (int \<times> int) option" where
  "copy_paste_config m =
     (if m = ''H5P.CoursePresentation'' then Some (1, 20)
      else if m = ''H5P.InteractiveVideo'' then Some (1, 20)
      else if m = ''H5P.DragQuestion'' then Some (1, 13)
      else None)"

definition enableCopyAndPaste :: "libver option \<Rightarrow> bool" where
  "enableCopyAndPaste anc =
     (case anc of
        Some l \<Rightarrow>
          (case copy_paste_config (machineName l) of
             None \<Rightarrow> True
           | Some (major, minor) \<Rightarrow>
               majorVersion l > major \<or> (majorVersion l = major \<and> minorVersion l \<ge> minor))
      | None \<Rightarrow> True)"

text \<open>
  \<^verbatim>\<open>appendTo\<close> (lines 85-194). The copy and paste buttons are put into the markup only
  when \<^verbatim>\<open>window.localStorage\<close> is there and copy and paste is enabled (line 144);
  \<open>buttons\<close> are the two elements \<^verbatim>\<open>ns.createCopyPasteButtons\<close> makes.
  \<^verbatim>\<open>this.$copyButton\<close> and \<^verbatim>\<open>this.$pasteButton\<close> are assigned whenever
  \<^verbatim>\<open>window.localStorage\<close> is there (line 156): the result of \<^verbatim>\<open>find\<close>, which is the
  empty selection when the markup has no such button. The request for the library
  list is answered later, by \<open>librariesLoaded\<close>.
\<close>

definition appendTo :: "env \<Rightarrow> libver option \<Rightarrow> element \<times> element \<Rightarrow> library \<Rightarrow> library" where
  "appendTo en anc buttons st =
     (let markup = (if localStorage en \<and> enableCopyAndPaste anc
                    then ([fst buttons], [snd buttons]) else ([], []))
      in st\<lparr>select_options := [createOption ''-'' (JStr ''Loading...'') False],
            select_hidden := False,
            label_hidden := False,
            wrapper_class := ''libwrap'',
            copyButton := (if localStorage en then Some (fst markup) else None),
            pasteButton := (if localStorage en then Some (snd markup) else None)\<rparr>)"

text \<open>
  jQuery's \<^verbatim>\<open>toggleClass('disabled', b)\<close> and \<^verbatim>\<open>hide()\<close> act on every element of a
  selection, and do nothing on the empty selection.
\<close>

definition toggleClass_disabled :: "bool \<Rightarrow> element list \<Rightarrow> element list" where
  "toggleClass_disabled b sel = map (\<lambda>e. e\<lparr>disabled := b\<rparr>) sel"

definition hide :: "element list \<Rightarrow> element list" where
  "hide sel = map (\<lambda>e. e\<lparr>hidden := True\<rparr>) sel"

section \<open>removeChildren\<close>

text \<open>
  Modelled from the spec: \<^verbatim>\<open>ns.removeChildren\<close> is not in the source; it tears down
  the child field instances it is given, so each child's rendering leaves the document.
  It is handed the array, not the field \<^verbatim>\<open>this.children\<close>, which stays defined.
\<close>

definition ns_removeChildren :: "child list \<Rightarrow> child list" where
  "ns_removeChildren cs = map (\<lambda>c. c\<lparr>attached := False\<rparr>) cs"

text \<open>
  The inner loop of lines 564-569: \<^verbatim>\<open>splice(i, 1)\<close> on both arrays where the parent
  at \<open>i\<close> is this selector, with the length read again at every step.
\<close>

definition splice1 :: "nat \<Rightarrow> 'a list \<Rightarrow> 'a list" where
  "splice1 i xs = take i xs @ drop (Suc i) xs"

function splice_loop :: "nat \<Rightarrow> nat \<Rightarrow> nat list \<Rightarrow> nat list \<Rightarrow> nat list \<times> nat list" where
  "splice_loop i this ps svs =
     (if i < length ps then
        (if ps ! i = this then splice_loop (Suc i) this (splice1 i ps) (splice1 i svs)
         else splice_loop (Suc i) this ps svs)
      else (ps, svs))"
  by pat_completeness auto
termination
  by (relation "measure (\<lambda>(i, this, ps, svs). length ps - i)") (auto simp: splice1_def)

text \<open>Lines 557-570 for one field of a library path: the field, and whether it was removed.\<close>

definition remove_common_field :: "nat \<Rightarrow> common_field \<Rightarrow> common_field \<times> bool" where
  "remove_common_field this f =
     (let single = (length (parents f) = 1);
          f1 = (if single then f\<lparr>instance_removed := True\<rparr> else f);
          (ps, svs) = splice_loop 0 this (parents f1) (setValues f1)
      in (f1\<lparr>parents := ps, setValues := svs\<rparr>, single))"

fun remove_common_fields ::
  "nat \<Rightarrow> (string \<times> common_field) list \<Rightarrow> (string \<times> common_field) list \<times> bool" where
  "remove_common_fields this [] = ([], False)"
| "remove_common_fields this ((n, f) # fs) =
     (let (f', r) = remove_common_field this f;
          (fs', r') = remove_common_fields this fs
      in ((n, f') # fs', r \<or> r'))"

text \<open>Lines 551-576: the library paths whose first segment is the current library.\<close>

fun remove_common_paths ::
  "nat \<Rightarrow> string option \<Rightarrow> (string \<times> (string \<times> common_field) list) list
     \<Rightarrow> (string \<times> (string \<times> common_field) list) list" where
  "remove_common_paths this cur [] = []"
| "remove_common_paths this cur ((path, fs) # rest) =
     (if Some (takeWhile (\<lambda>c. c \<noteq> CHR ''/'') path) = cur then
        (let (fs', r) = remove_common_fields this fs
         in (if r then [] else [(path, fs')]) @ remove_common_paths this cur rest)
      else (path, fs) # remove_common_paths this cur rest)"

text \<open>\<^verbatim>\<open>removeChildren\<close> (lines 532-579).\<close>

definition removeChildren :: "library \<Rightarrow> outcome" where
  "removeChildren st =
     (let st1 = (case metadataForm st of
                   Some mf \<Rightarrow>
                     (case mf_children mf of
                        Some cs \<Rightarrow>
                          st\<lparr>metadataForm := Some (mf\<lparr>mf_children := Some (ns_removeChildren cs)\<rparr>)\<rparr>
                      | None \<Rightarrow> st)
                 | None \<Rightarrow> st)
      in if currentLibrary st1 = Some ''-'' \<or> children st1 = None then Returned st1
         else
           and_then
             (if metadataFormWrapper st1 then
                (if metadataButton st1
                 then Returned (st1\<lparr>metadataFormWrapper := False, metadataButton := False\<rparr>)
                 else Threw TypeError (st1\<lparr>metadataFormWrapper := False\<rparr>))
              else Returned st1)
             (\<lambda>st2. Returned
                (st2\<lparr>commonFields :=
                        remove_common_paths (self_id st2) (currentLibrary st2) (commonFields st2),
                      children := map_option ns_removeChildren (children st2)\<rparr>)))"

section \<open>loadLibrary\<close>

text \<open>
  The class given to the wrapper on line 374:
  \<^verbatim>\<open>'libwrap ' + libraryName.split(' ')[0].toLowerCase().replace('.', '-') + '-editor'\<close>
  (library names are ASCII; \<^verbatim>\<open>replace\<close> with a string pattern replaces the first match).
\<close>

definition toLowerCase_char :: "char \<Rightarrow> char" where
  "toLowerCase_char c =
     (let n = (of_char c :: nat) in if 65 \<le> n \<and> n \<le> 90 then char_of (n + 32) else c)"

fun replace_first_dot :: "string \<Rightarrow> string" where
  "replace_first_dot [] = []"
| "replace_first_dot (c # cs) =
     (if c = CHR ''.'' then CHR ''-'' # cs else c # replace_first_dot cs)"

definition editor_class :: "string \<Rightarrow> string" where
  "editor_class name =
     ''libwrap '' @
     replace_first_dot (map toLowerCase_char (takeWhile (\<lambda>c. c \<noteq> CHR '' '') name)) @
     ''-editor''"

text \<open>
  \<^verbatim>\<open>loadLibrary\<close> up to the request to the schema loader (lines 358-376). The
  sentinel branch deletes four keys of the parameter object, resets the wrapper's
  class and then calls \<^verbatim>\<open>toggleClass\<close> on \<^verbatim>\<open>this.$copyButton\<close> without a test;
  on an undefined \<^verbatim>\<open>$copyButton\<close> that call throws. Any other name must be a string
  (\<^verbatim>\<open>split\<close> throws otherwise) and is requested from \<^verbatim>\<open>ns.loadLibrary\<close>; the
  completion of the request is \<open>libraryLoaded\<close> below.
\<close>

definition loadLibrary :: "env \<Rightarrow> jsval \<Rightarrow> jsval \<Rightarrow> library \<Rightarrow> outcome" where
  "loadLibrary en libraryName' preserveParams st =
     and_then (removeChildren st)
       (\<lambda>st1.
          if libraryName' = JStr ''-'' then
            (let ob = deref (heap st1) (params st1);
                 ob' = delete_prop ''metadata''
                         (delete_prop ''subContentId''
                           (delete_prop ''params'' (delete_prop ''library'' ob)));
                 st2 = st1\<lparr>heap := store (heap st1) (params st1) ob',
                           wrapper_class := ''libwrap''\<rparr>
             in case copyButton st2 of
                  None \<Rightarrow> Threw TypeError st2
                | Some b \<Rightarrow> Returned (st2\<lparr>copyButton := Some (toggleClass_disabled True b)\<rparr>))
          else
            (case libraryName' of
               JStr name \<Rightarrow>
                 Returned (st1\<lparr>wrapper_class := editor_class name,
                               fetches := fetches st1 @ [(name, preserveParams)]\<rparr>)
             | _ \<Rightarrow> Threw TypeError st1))"

section \<open>findLibraryMetadataSettings and change\<close>

record metadata_settings =
  disable :: jsval
  disableExtraTitleField :: jsval

text \<open>
  The loop of lines 440-445: at the first descriptor whose uberName is strictly equal
  to \<^verbatim>\<open>self.libraryName\<close> it assigns the descriptor's metadata to the variable
  \<^verbatim>\<open>library\<close>, which is not declared in the function (an implicit global), and stops.
  The result is the new value of that global. The local \<^verbatim>\<open>metadata\<close> is declared on
  line 439 and never assigned.
\<close>

fun find_metadata_loop :: "descriptor list \<Rightarrow> jsval \<Rightarrow> jsval \<Rightarrow> jsval" where
  "find_metadata_loop [] ln g = g"
| "find_metadata_loop (d # ds) ln g =
     (if JStr (uberName d) = ln then metadata d else find_metadata_loop ds ln g)"

definition findLibraryMetadataSettings ::
  "env \<Rightarrow> library \<Rightarrow> string \<Rightarrow> error + (metadata_settings \<times> library)" where
  "findLibraryMetadataSettings en st name =
     (case libraries st of
        None \<Rightarrow> Inl TypeError
      | Some libs \<Rightarrow>
          (let metadata_local = JUndefined;
               st' = st\<lparr>global_library :=
                          find_metadata_loop libs (libraryName st) (global_library st)\<rparr>
           in Inr (if truthy metadata_local
                   then \<lparr>disable = read_prop (heap st') metadata_local ''disable'',
                         disableExtraTitleField =
                           read_prop (heap st') metadata_local ''disableExtraTitleField''\<rparr>
                   else \<lparr>disable = JBool (\<not> enableMetadata en name),
                         disableExtraTitleField = JBool False\<rparr>,
                   st')))"

text \<open>
  \<^verbatim>\<open>change\<close> (lines 459-479). A callback is an identifier; invoking it is recorded in
  \<open>calls\<close> with the descriptor it is given (\<open>None\<close> for undefined). What a callback
  does when invoked is outside the selector.
\<close>

fun change_find :: "descriptor list \<Rightarrow> string option \<Rightarrow> descriptor option" where
  "change_find [] cur = None"
| "change_find (d # ds) cur = (if Some (uberName d) = cur then Some d else change_find ds cur)"

fun run_callbacks :: "callback list \<Rightarrow> descriptor option \<Rightarrow> (callback \<times> descriptor option) list" where
  "run_callbacks [] l = []"
| "run_callbacks (c # cs) l = (c, l) # run_callbacks cs l"

definition change :: "callback option \<Rightarrow> library \<Rightarrow> outcome" where
  "change cb st =
     (case cb of
        Some c \<Rightarrow> Returned (st\<lparr>changes := changes st @ [c]\<rparr>)
      | None \<Rightarrow>
          (case libraries st of
             None \<Rightarrow> Threw TypeError st
           | Some libs \<Rightarrow>
               Returned (st\<lparr>calls := calls st @
                               run_callbacks (changes st) (change_find libs (currentLibrary st))\<rparr>)))"

section \<open>canPaste\<close>

fun canPaste_loop :: "descriptor list \<Rightarrow> jsval \<Rightarrow> bool" where
  "canPaste_loop [] l = False"
| "canPaste_loop (d # ds) l = (if JStr (uberName d) = l then True else canPaste_loop ds l)"

definition canPaste :: "library \<Rightarrow> jsval \<Rightarrow> error + bool" where
  "canPaste st clipboard =
     (if truthy clipboard \<and> truthy (read_prop (heap st) clipboard ''generic'') then
        (case libraries st of
           None \<Rightarrow> Inl TypeError
         | Some libs \<Rightarrow>
             Inr (canPaste_loop libs
                    (read_prop (heap st) (read_prop (heap st) clipboard ''generic'') ''library'')))
      else Inr False)"

section \<open>Completion of a schema fetch\<close>

fun first_with_item :: "child list \<Rightarrow> nat \<Rightarrow> nat option" where
  "first_with_item [] i = None"
| "first_with_item (c # cs) i = (if has_item c then Some i else first_with_item cs (Suc i))"

text \<open>
  Lines 377-391 of the callback given to \<^verbatim>\<open>ns.loadLibrary\<close>: the writes to the
  selector and to the parameter object. \<open>uuid\<close> is what \<^verbatim>\<open>H5P.createUUID()\<close> returns
  when it is called. The object literals \<^verbatim>\<open>{}\<close> are new objects of the store.
\<close>

definition libraryLoaded_params :: "string \<Rightarrow> jsval \<Rightarrow> string \<Rightarrow> library \<Rightarrow> library" where
  "libraryLoaded_params name preserveParams uuid st =
     (let p = params st;
          h0 = heap st;
          ob1 = set_prop ''library'' (JStr name) (deref h0 p);
          (ob2, h1) =
            (if preserveParams = JUndefined \<or> \<not> truthy preserveParams then
               (let (a, ha) = alloc h0 [];
                    (b, hb) = alloc ha []
                in (set_prop ''metadata'' (JRef b)
                      (set_prop ''params'' (JRef a) (delete_prop ''subContentId'' ob1)), hb))
             else (ob1, h0));
          ob3 = (if get_prop ob2 ''subContentId'' = JUndefined
                 then set_prop ''subContentId'' (JStr uuid) ob2 else ob2);
          (ob4, h2) =
            (if get_prop ob3 ''metadata'' = JUndefined then
               (let (b, hb) = alloc h1 [] in (set_prop ''metadata'' (JRef b) ob3, hb))
             else (ob3, h1))
      in st\<lparr>currentLibrary := Some name, heap := store h2 p ob4\<rparr>)"

text \<open>
  The whole callback (lines 376-427). \<open>mf\<close> is the metadata form that
  \<^verbatim>\<open>new ns.MetadataForm\<close> constructs, \<open>kids\<close> the child instances the form renderer
  \<^verbatim>\<open>ns.processSemanticsChunk\<close> leaves in \<^verbatim>\<open>this.children\<close> and \<open>cf\<close> the
  common-fields table it leaves in the ancestor; what the form renderer and the
  metadata form write into the nested objects they are handed is not modelled.
\<close>

definition libraryLoaded ::
  "env \<Rightarrow> string \<Rightarrow> jsval \<Rightarrow> string \<Rightarrow> metadata_form \<Rightarrow> child list
     \<Rightarrow> (string \<times> (string \<times> common_field) list) list \<Rightarrow> library \<Rightarrow> outcome" where
  "libraryLoaded en name preserveParams uuid mf kids cf st =
     (let st1 = libraryLoaded_params name preserveParams uuid st
      in case findLibraryMetadataSettings en st1 name of
           Inl e \<Rightarrow> Threw e st1
         | Inr (ms, st2) \<Rightarrow>
             (let st3 = st2\<lparr>metadataForm := (if \<not> truthy (disable ms) then Some mf else None)\<rparr>;
                  st4 = st3\<lparr>children := Some kids, commonFields := cf\<rparr>
              in and_then
                   (if localStorage en then
                      (case copyButton st4 of
                         None \<Rightarrow> Threw TypeError st4
                       | Some b \<Rightarrow> Returned (st4\<lparr>copyButton := Some (toggleClass_disabled False b)\<rparr>))
                    else Returned st4)
                   (\<lambda>st5.
                      let st6 =
                            (case metadataForm st5 of
                               Some m \<Rightarrow>
                                 (if truthy (disableExtraTitleField ms) then
                                    (case first_with_item kids 0 of
                                       Some i \<Rightarrow> st5\<lparr>metadataForm := Some (m\<lparr>mf_button_at := Some i\<rparr>)\<rparr>
                                     | None \<Rightarrow> st5)
                                  else st5)
                             | None \<Rightarrow> st5)
                      in if libraries st6 \<noteq> None then change None st6
                         else Returned (st6\<lparr>runChangeCallback := True\<rparr>))))"

section \<open>replaceContent\<close>

text \<open>
  Both loops of lines 255-267 call the method \<^verbatim>\<open>hasOwnProperty\<close> on the object they
  enumerate. The call finds the built-in of \<^verbatim>\<open>Object.prototype\<close> only if neither the
  object nor an object it inherits from has a property of that name; a property of
  that name holds data, which cannot be called, and without \<^verbatim>\<open>Object.prototype\<close> in
  the chain there is no method at all: the call throws.
\<close>

definition has_method :: "heap \<Rightarrow> proto \<Rightarrow> obj \<Rightarrow> bool" where
  "has_method h pr ob =
     (\<not> hasOwnProperty ob ''hasOwnProperty'' \<and>
      (case pr of
         ObjectPrototype \<Rightarrow> True
       | NullPrototype \<Rightarrow> False
       | ObjectAt x \<Rightarrow> \<not> hasOwnProperty (deref h x) ''hasOwnProperty''))"

text \<open>
  The keys \<^verbatim>\<open>for (prop in o)\<close> visits: the own keys in insertion order, then the
  keys inherited from an object of the store (\<^verbatim>\<open>Object.prototype\<close> has no
  enumerable key). Keys that are array indices, which JavaScript visits first, are
  not treated apart.
\<close>

definition for_in_keys :: "heap \<Rightarrow> proto \<Rightarrow> obj \<Rightarrow> string list" where
  "for_in_keys h pr ob =
     map fst ob @
     filter (\<lambda>k. \<not> hasOwnProperty ob k)
       (case pr of ObjectAt x \<Rightarrow> map fst (deref h x) | _ \<Rightarrow> [])"

text \<open>
  Lines 256-260: at each key the call \<^verbatim>\<open>self.params.hasOwnProperty(prop)\<close>, then the
  deletion of an own key. A throw keeps the object as it is at that moment.
\<close>

fun delete_own :: "heap \<Rightarrow> proto \<Rightarrow> string list \<Rightarrow> obj \<Rightarrow> (error \<times> obj) + obj" where
  "delete_own h pr [] ob = Inr ob"
| "delete_own h pr (k # ks) ob =
     (if has_method h pr ob
      then delete_own h pr ks (if hasOwnProperty ob k then delete_prop k ob else ob)
      else Inl (TypeError, ob))"

text \<open>
  The assignment \<^verbatim>\<open>self.params[prop] = v\<close> of line 265 on the parameter object at
  \<open>p\<close>, given as its own properties and its prototype. For the key \<^verbatim>\<open>__proto__\<close>,
  when the object has no own property of that name and inherits the accessor of
  \<^verbatim>\<open>Object.prototype\<close>, the setter runs: an object becomes the prototype (the object
  itself is refused as cyclic, with a TypeError), \<^verbatim>\<open>null\<close> removes the prototype, any
  other value is ignored; no own property is created. Every other assignment creates
  or updates an own property.
\<close>

definition inherits_setter :: "heap \<Rightarrow> proto \<Rightarrow> bool" where
  "inherits_setter h pr =
     (case pr of
        ObjectPrototype \<Rightarrow> True
      | NullPrototype \<Rightarrow> False
      | ObjectAt x \<Rightarrow> \<not> hasOwnProperty (deref h x) ''__proto__'')"

definition assign_prop ::
  "heap \<Rightarrow> addr \<Rightarrow> string \<Rightarrow> jsval \<Rightarrow> obj \<times> proto \<Rightarrow> (error \<times> obj \<times> proto) + (obj \<times> proto)" where
  "assign_prop h p k v target =
     (let (ob, pr) = target
      in if k = ''__proto__'' \<and> \<not> hasOwnProperty ob k \<and> inherits_setter h pr then
           (case v of
              JRef x \<Rightarrow> if x = p then Inl (TypeError, ob, pr) else Inr (ob, ObjectAt x)
            | JNull \<Rightarrow> Inr (ob, NullPrototype)
            | _ \<Rightarrow> Inr (ob, pr))
         else Inr (set_prop k v ob, pr))"

text \<open>
  Lines 263-267: at each key the call \<^verbatim>\<open>clipboard.generic.hasOwnProperty(prop)\<close> on the
  payload (own properties \<open>src\<close>, prototype \<open>spr\<close>), then the assignment of an own key
  of the payload to the parameter object.
\<close>

fun copy_own ::
  "heap \<Rightarrow> addr \<Rightarrow> proto \<Rightarrow> string list \<Rightarrow> obj \<Rightarrow> obj \<times> proto
     \<Rightarrow> (error \<times> obj \<times> proto) + (obj \<times> proto)" where
  "copy_own h p spr [] src target = Inr target"
| "copy_own h p spr (k # ks) src target =
     (if has_method h spr src then
        (if hasOwnProperty src k then
           (case assign_prop h p k (get_prop src k) target of
              Inl e \<Rightarrow> Inl e
            | Inr target' \<Rightarrow> copy_own h p spr ks src target')
         else copy_own h p spr ks src target)
      else Inl (TypeError, target))"

text \<open>
  Lines 255-267 on the store. The parameter object is emptied at its address; then
  \<^verbatim>\<open>clipboard.generic\<close> is read again and its own keys are assigned to the object at the
  same address. After a successful \<open>canPaste\<close> the payload is an object; a value that
  is no object has no keys to enumerate. A payload is a parsed object with the default
  prototype, unless it is the parameter object itself.
\<close>

definition paste_params :: "jsval \<Rightarrow> library \<Rightarrow> outcome" where
  "paste_params clipboard st =
     (let p = params st;
          pr = params_proto st;
          old = deref (heap st) p
      in case delete_own (heap st) pr (for_in_keys (heap st) pr old) old of
           Inl (e, ob) \<Rightarrow> Threw e (st\<lparr>heap := store (heap st) p ob\<rparr>)
         | Inr ob \<Rightarrow>
             (let h1 = store (heap st) p ob;
                  (src, spr) =
                    (case read_prop h1 clipboard ''generic'' of
                       JRef g \<Rightarrow> (deref h1 g, if g = p then pr else ObjectPrototype)
                     | _ \<Rightarrow> ([], ObjectPrototype))
              in case copy_own h1 p spr (for_in_keys h1 spr src) src (deref h1 p, pr) of
                   Inl (e, ob', pr') \<Rightarrow>
                     Threw e (st\<lparr>heap := store h1 p ob', params_proto := pr'\<rparr>)
                 | Inr (ob', pr') \<Rightarrow>
                     Returned (st\<lparr>heap := store h1 p ob', params_proto := pr'\<rparr>)))"

text \<open>
  The function passed to \<^verbatim>\<open>ns.confirmReplace\<close> (lines 251-271). The value shown by
  the selection element is not part of the state.
\<close>

definition replaceContent_confirmed :: "env \<Rightarrow> jsval \<Rightarrow> library \<Rightarrow> outcome" where
  "replaceContent_confirmed en clipboard st =
     and_then (paste_params clipboard st)
       (\<lambda>st1.
          let generic = read_prop (heap st1) clipboard ''generic''
          in if generic = JUndefined \<or> generic = JNull then Threw TypeError st1
             else loadLibrary en (read_prop (heap st1) generic ''library'') (JBool True) st1)"

text \<open>
  Modelled from the spec: \<^verbatim>\<open>ns.confirmReplace(library, top, next)\<close> is not in the
  source. It requests confirmation only if a library is already loaded and runs
  \<^verbatim>\<open>next\<close> once confirmed, or at once when there is nothing to confirm;
  \<open>confirmed\<close> is the user's answer.
\<close>

definition ns_confirmReplace ::
  "jsval \<Rightarrow> bool \<Rightarrow> (library \<Rightarrow> outcome) \<Rightarrow> library \<Rightarrow> outcome" where
  "ns_confirmReplace lib confirmed next st =
     (if truthy lib then (if confirmed then next st else Returned st) else next st)"

text \<open>\<^verbatim>\<open>replaceContent\<close> (lines 241-272).\<close>

definition replaceContent :: "env \<Rightarrow> bool \<Rightarrow> jsval \<Rightarrow> library \<Rightarrow> outcome" where
  "replaceContent en confirmed clipboard st =
     (case canPaste st clipboard of
        Inl e \<Rightarrow> Threw e st
      | Inr ok \<Rightarrow>
          if \<not> ok then
            Returned (st\<lparr>console := console st @ [''Tried to paste unsupported sub-content'']\<rparr>)
          else
            ns_confirmReplace (get_prop (deref (heap st) (params st)) ''library'') confirmed
              (replaceContent_confirmed en clipboard) st)"

section \<open>librariesLoaded and the event handlers\<close>

text \<open>The loop of lines 306-312; \<open>lib\<close> is \<^verbatim>\<open>self.params.library\<close>.\<close>

fun options_loop :: "descriptor list \<Rightarrow> jsval \<Rightarrow> select_option list" where
  "options_loop [] lib = []"
| "options_loop (d # ds) lib =
     (if JStr (uberName d) = lib \<or>
         (title d \<noteq> JUndefined \<and> (restricted d = JUndefined \<or> \<not> truthy (restricted d)))
      then [createOption (uberName d) (title d) (JStr (uberName d) = lib)] else [])
     @ options_loop ds lib"

text \<open>
  Lines 340-344 and 345-348 of \<^verbatim>\<open>librariesLoaded\<close>: the deferred run of the change
  callbacks, and the load of the library the parameter object names.
\<close>

definition run_change_callback :: "library \<Rightarrow> outcome" where
  "run_change_callback st =
     (if runChangeCallback st then
        and_then (change None st) (\<lambda>s. Returned (s\<lparr>runChangeCallback := False\<rparr>))
      else Returned st)"

definition load_default_library :: "env \<Rightarrow> library \<Rightarrow> outcome" where
  "load_default_library en st =
     (let lib = get_prop (deref (heap st) (params st)) ''library''
      in if lib \<noteq> JUndefined then loadLibrary en lib (JBool True) st else Returned st)"

text \<open>
  \<^verbatim>\<open>librariesLoaded\<close> (lines 301-349); \<open>clipboard\<close> is what \<^verbatim>\<open>H5P.getClipboard()\<close>
  returns.
\<close>

definition librariesLoaded :: "env \<Rightarrow> jsval \<Rightarrow> descriptor list \<Rightarrow> library \<Rightarrow> outcome" where
  "librariesLoaded en clipboard libList st =
     (let st1 = st\<lparr>libraries := Some libList\<rparr>;
          lib = get_prop (deref (heap st1) (params st1)) ''library'';
          opts = createOption ''-'' (JStr ''-'') False # options_loop libList lib;
          st2 = st1\<lparr>select_options := opts\<rparr>
      in and_then
           (and_then
              (if length libList = 1 then
                 loadLibrary en (JStr (opt_value (last opts))) (JBool True)
                   (st2\<lparr>select_hidden := True, label_hidden := True,
                         copyButton := map_option hide (copyButton st2),
                         pasteButton := map_option hide (pasteButton st2)\<rparr>)
               else if localStorage en then
                 (case canPaste st2 clipboard of
                    Inl e \<Rightarrow> Threw e st2
                  | Inr ok \<Rightarrow>
                      if ok then
                        (case pasteButton st2 of
                           None \<Rightarrow> Threw TypeError st2
                         | Some b \<Rightarrow>
                             Returned (st2\<lparr>pasteButton := Some (toggleClass_disabled False b)\<rparr>))
                      else Returned st2)
               else Returned st2)
              run_change_callback)
           (load_default_library en))"

text \<open>
  The change handler of the selection element (lines 314-328) with the confirmation
  dialog of lines 47-60: \<open>v\<close> is the value of the selection element, \<open>confirmed\<close> the
  user's answer when the dialog is shown.
\<close>

definition select_changed :: "env \<Rightarrow> jsval \<Rightarrow> bool \<Rightarrow> library \<Rightarrow> outcome" where
  "select_changed en v confirmed st =
     (if truthy (get_prop (deref (heap st) (params st)) ''library'') then
        (if confirmed then loadLibrary en v JUndefined st else Returned st)
      else loadLibrary en v JUndefined st)"

text \<open>
  The handler of \<^verbatim>\<open>datainclipboard\<close> (lines 62-73): \<open>reset\<close> is \<^verbatim>\<open>event.data.reset\<close>.
\<close>

definition datainclipboard :: "jsval \<Rightarrow> jsval \<Rightarrow> library \<Rightarrow> outcome" where
  "datainclipboard reset clipboard st =
     (if libraries st = None then Returned st
      else
        (case (if \<not> truthy reset then canPaste st clipboard else Inr False) of
           Inl e \<Rightarrow> Threw e st
         | Inr ok \<Rightarrow>
             (case pasteButton st of
                None \<Rightarrow> Threw TypeError st
              | Some b \<Rightarrow> Returned (st\<lparr>pasteButton := Some (toggleClass_disabled (\<not> ok) b)\<rparr>))))"

section \<open>validate\<close>

text \<open>
  The two loops of lines 491-503: a child makes the result invalid when its
  \<^verbatim>\<open>validate()\<close> returns exactly \<^verbatim>\<open>false\<close>.
\<close>

fun validate_children :: "child list \<Rightarrow> bool \<Rightarrow> bool" where
  "validate_children [] valid = valid"
| "validate_children (c # cs) valid =
     validate_children cs (if validate_result c = JBool False then False else valid)"

text \<open>\<^verbatim>\<open>validate\<close> (lines 487-510).\<close>

definition validate :: "library \<Rightarrow> bool" where
  "validate st =
     (let valid0 = True;
          valid1 = (case metadataForm st of
                      Some mf \<Rightarrow>
                        (case mf_children mf of
                           Some cs \<Rightarrow> validate_children cs valid0
                         | None \<Rightarrow> valid0)
                    | None \<Rightarrow> valid0);
          valid2 = (case children st of
                      Some cs \<Rightarrow> validate_children cs valid1
                    | None \<Rightarrow>
                        (case libraries st of
                           Some libs \<Rightarrow> (if length libs \<noteq> 0 then False else valid1)
                         | None \<Rightarrow> valid1))
      in if truthy (field_optional st) then True else valid2)"

section \<open>Example states\<close>

text \<open>
  Concrete inputs for the instances below: a browser with and without
  \<^verbatim>\<open>window.localStorage\<close>, two descriptors, a descriptor without a title, and a
  required selector that has been constructed without parameters and appended.
\<close>

definition browser :: env where
  "browser = \<lparr>localStorage = True, enableMetadata = (\<lambda>n. True)\<rparr>"

definition no_storage :: env where
  "no_storage = \<lparr>localStorage = False, enableMetadata = (\<lambda>n. True)\<rparr>"

definition button :: element where
  "button = \<lparr>disabled = True, hidden = False\<rparr>"

definition blanks :: descriptor where
  "blanks = \<lparr>uberName = ''H5P.Blanks 1.3'', title = JStr ''Blanks'',
              restricted = JUndefined, metadata = JUndefined\<rparr>"

definition quiz :: descriptor where
  "quiz = \<lparr>uberName = ''H5P.QuestionSet 1.17'', title = JStr ''Quiz'',
            restricted = JUndefined, metadata = JUndefined\<rparr>"

definition untitled :: descriptor where
  "untitled = \<lparr>uberName = ''H5P.Blanks 1.3'', title = JUndefined,
                restricted = JUndefined, metadata = JUndefined\<rparr>"

definition fresh :: "env \<Rightarrow> library" where
  "fresh en = appendTo en None (button, button) (Library 0 [] (JBool False) None)"

text \<open>
  The appended selector after the library list \<^verbatim>\<open>[blanks, quiz]\<close> has arrived, with a
  clipboard object at address 2 whose generic payload (address 3) declares \<open>lib\<close>.
\<close>

definition listed :: "string \<Rightarrow> library" where
  "listed lib =
     (state_of (librariesLoaded browser JUndefined [blanks, quiz] (fresh browser)))
       \<lparr>heap := heap (fresh browser) @
                  [[(''generic'', JRef 3)],
                   [(''library'', JStr lib), (''params'', JRef 4)],
                   [(''text'', JStr ''abc'')]]\<rparr>"

text \<open>
  The same selector with other payloads on the clipboard: one with an own key
  \<^verbatim>\<open>hasOwnProperty\<close>, and one with an own key \<^verbatim>\<open>__proto__\<close> that holds an object,
  as \<^verbatim>\<open>JSON.parse\<close> gives them.
\<close>

definition shadowed :: library where
  "shadowed =
     (listed ''H5P.Blanks 1.3'')
       \<lparr>heap := heap (fresh browser) @
                  [[(''generic'', JRef 3)],
                   [(''library'', JStr ''H5P.Blanks 1.3''), (''hasOwnProperty'', JNum 1)]]\<rparr>"

definition proto_payload :: library where
  "proto_payload =
     (listed ''H5P.Blanks 1.3'')
       \<lparr>heap := heap (fresh browser) @
                  [[(''generic'', JRef 3)],
                   [(''library'', JStr ''H5P.Blanks 1.3''), (''__proto__'', JRef 4)],
                   [(''subContentId'', JStr ''abc'')]]\<rparr>"

text \<open>The same selector in a browser without \<^verbatim>\<open>window.localStorage\<close>.\<close>

definition listed_no_storage :: library where
  "listed_no_storage =
     state_of (librariesLoaded no_storage JUndefined [blanks, quiz] (fresh no_storage))"

text \<open>
  A selector constructed on stored content that names \<^verbatim>\<open>H5P.Blanks 1.3\<close>, appended.
\<close>

definition saved :: library where
  "saved =
     appendTo browser None (button, button)
       (Library 0 [[(''library'', JStr ''H5P.Blanks 1.3''), (''params'', JRef 1)], []]
          (JBool False) (Some 0))"

text \<open>
  The selector of \<open>listed\<close> after the user has chosen \<^verbatim>\<open>H5P.Blanks 1.3\<close> and the
  schema has arrived: the renderer has built one child.
\<close>

definition field_child :: child where
  "field_child = \<lparr>validate_result = JBool True, attached = True, has_item = True\<rparr>"

definition empty_form :: metadata_form where
  "empty_form = \<lparr>mf_children = Some [], mf_button_at = None\<rparr>"

definition requested :: library where
  "requested =
     state_of (select_changed browser (JStr ''H5P.Blanks 1.3'') True (listed ''H5P.Blanks 1.3''))"

definition loaded :: library where
  "loaded =
     state_of
       (libraryLoaded browser ''H5P.Blanks 1.3'' JUndefined ''uuid-1''
          empty_form [field_child] [] requested)"

text \<open>An ancestor whose content type handles copy and paste itself (line 119-131).\<close>

definition old_presentation :: libver where
  "old_presentation =
     \<lparr>machineName = ''H5P.CoursePresentation'', majorVersion = 1, minorVersion = 19\<rparr>"

text \<open>The selector of \<open>requested\<close> with one change callback registered.\<close>

definition registered :: library where
  "registered = state_of (change (Some 7) requested)"

text \<open>An optional selector, constructed without parameters and appended.\<close>

definition optional_fresh :: library where
  "optional_fresh = appendTo browser None (button, button) (Library 0 [] (JBool True) None)"

section \<open>Properties of the store and of the loops\<close>

lemma deref_store_same: "a < length h \<Longrightarrow> deref (store h a ob) a = ob"
  by (simp add: deref_def store_def)

lemma deref_store_other: "a \<noteq> b \<Longrightarrow> deref (store h a ob) b = deref h b"
  by (simp add: deref_def store_def)

lemma length_store: "length (store h a ob) = length h"
  by (simp add: store_def)

lemma deref_append: "a < length h \<Longrightarrow> deref (h @ hs) a = deref h a"
  by (simp add: deref_def nth_append)


lemma get_delete_prop:
  "get_prop (delete_prop k ob) k' = (if k' = k then JUndefined else get_prop ob k')"
  by (simp add: get_prop_def delete_prop_def AList.delete_conv')

lemma hasOwn_delete_prop:
  "hasOwnProperty (delete_prop k ob) k' = (k' \<noteq> k \<and> hasOwnProperty ob k')"
  by (auto simp: hasOwnProperty_def delete_prop_def AList.delete_eq)

lemma delete_prop_absent: "\<not> hasOwnProperty ob k \<Longrightarrow> delete_prop k ob = ob"
  by (induction ob) (auto simp: hasOwnProperty_def delete_prop_def)

lemma has_method_delete: "has_method h pr ob \<Longrightarrow> has_method h pr (delete_prop k ob)"
  by (simp add: has_method_def hasOwn_delete_prop)

lemma delete_own_filter:
  "has_method h pr ob \<Longrightarrow> delete_own h pr ks ob = Inr (filter (\<lambda>p. fst p \<notin> set ks) ob)"
proof (induction ks arbitrary: ob)
  case Nil
  then show ?case by simp
next
  case (Cons k ks)
  have same: "(if hasOwnProperty ob k then delete_prop k ob else ob) = delete_prop k ob"
    by (simp add: delete_prop_absent)
  have del: "delete_prop k ob = filter (\<lambda>p. fst p \<noteq> k) ob"
    by (simp add: delete_prop_def AList.delete_eq case_prod_unfold eq_commute)
  have "delete_own h pr (k # ks) ob = delete_own h pr ks (delete_prop k ob)"
    using Cons.prems by (simp add: same)
  also have "\<dots> = Inr (filter (\<lambda>p. fst p \<notin> set ks) (delete_prop k ob))"
    using Cons.prems by (intro Cons.IH has_method_delete)
  finally show ?case
    by (simp add: del conj_commute)
qed

lemma delete_own_all:
  "has_method h pr ob \<Longrightarrow> delete_own h pr (for_in_keys h pr ob) ob = Inr []"
  by (simp add: delete_own_filter for_in_keys_def)

lemma delete_own_throws:
  "\<not> has_method h pr ob \<Longrightarrow> ks \<noteq> [] \<Longrightarrow> delete_own h pr ks ob = Inl (TypeError, ob)"
  by (cases ks) simp_all

lemma copy_own_plain:
  assumes "has_method h spr src" and "''__proto__'' \<notin> set ks"
  shows "\<exists>dst'. copy_own h p spr ks src (dst, pr) = Inr (dst', pr) \<and>
           (\<forall>k. map_of dst' k =
                  (if k \<in> set ks \<and> hasOwnProperty src k then map_of src k else map_of dst k))"
  using assms(2)
proof (induction ks arbitrary: dst)
  case Nil
  then show ?case by simp
next
  case (Cons a ks)
  let ?d = "if hasOwnProperty src a then set_prop a (get_prop src a) dst else dst"
  from Cons.prems have a: "a \<noteq> ''__proto__''" and ks: "''__proto__'' \<notin> set ks"
    by auto
  from Cons.IH[OF ks, of ?d] obtain dst' where
    run: "copy_own h p spr ks src (?d, pr) = Inr (dst', pr)" and
    content: "\<forall>k. map_of dst' k =
        (if k \<in> set ks \<and> hasOwnProperty src k then map_of src k else map_of ?d k)"
    by blast
  have step: "copy_own h p spr (a # ks) src (dst, pr) = copy_own h p spr ks src (?d, pr)"
    using assms(1) a by (simp add: assign_prop_def)
  have "\<forall>k. map_of dst' k =
      (if k \<in> set (a # ks) \<and> hasOwnProperty src k then map_of src k else map_of dst k)"
    using content
    by (auto simp: set_prop_def AList.update_conv' get_prop_def hasOwnProperty_def
        map_of_eq_None_iff split: option.splits)
  with run step show ?case
    by simp
qed

lemma copy_own_throws:
  "\<not> has_method h spr src \<Longrightarrow> ks \<noteq> [] \<Longrightarrow>
   copy_own h p spr ks src target = Inl (TypeError, target)"
  by (cases ks) simp_all

lemma canPaste_loop_ex:
  "canPaste_loop libs l = (\<exists>d \<in> set libs. JStr (uberName d) = l)"
  by (induction libs) auto

lemma validate_children_all:
  "validate_children cs v = (v \<and> list_all (\<lambda>c. validate_result c \<noteq> JBool False) cs)"
  by (induction cs arbitrary: v) auto

lemma run_callbacks_map: "run_callbacks cs l = map (\<lambda>c. (c, l)) cs"
  by (induction cs) auto

lemma change_find_find: "change_find libs cur = find (\<lambda>d. Some (uberName d) = cur) libs"
  by (induction libs) auto

lemma options_loop_filter:
  "options_loop libs lib =
     map (\<lambda>d. createOption (uberName d) (title d) (JStr (uberName d) = lib))
       (filter (\<lambda>d. JStr (uberName d) = lib \<or>
                     (title d \<noteq> JUndefined \<and> \<not> truthy (restricted d))) libs)"
  by (induction libs) auto

section \<open>What each operation leaves alone\<close>

lemma and_then_keeps:
  "g (state_of r) = x \<Longrightarrow> (\<And>s. g (state_of (f s)) = g s) \<Longrightarrow>
   g (state_of (and_then r f)) = x"
  by (cases r) simp_all

lemma removeChildren_frame:
  "params (state_of (removeChildren st)) = params st \<and>
   heap (state_of (removeChildren st)) = heap st \<and>
   libraryName (state_of (removeChildren st)) = libraryName st \<and>
   select_options (state_of (removeChildren st)) = select_options st \<and>
   libraries (state_of (removeChildren st)) = libraries st \<and>
   currentLibrary (state_of (removeChildren st)) = currentLibrary st \<and>
   runChangeCallback (state_of (removeChildren st)) = runChangeCallback st \<and>
   changes (state_of (removeChildren st)) = changes st \<and>
   calls (state_of (removeChildren st)) = calls st \<and>
   fetches (state_of (removeChildren st)) = fetches st \<and>
   console (state_of (removeChildren st)) = console st \<and>
   copyButton (state_of (removeChildren st)) = copyButton st \<and>
   pasteButton (state_of (removeChildren st)) = pasteButton st \<and>
   wrapper_class (state_of (removeChildren st)) = wrapper_class st"
  by (simp add: removeChildren_def Let_def split: option.splits)

lemma loadLibrary_frame:
  "params (state_of (loadLibrary en n pp st)) = params st \<and>
   libraryName (state_of (loadLibrary en n pp st)) = libraryName st \<and>
   select_options (state_of (loadLibrary en n pp st)) = select_options st \<and>
   libraries (state_of (loadLibrary en n pp st)) = libraries st \<and>
   currentLibrary (state_of (loadLibrary en n pp st)) = currentLibrary st \<and>
   runChangeCallback (state_of (loadLibrary en n pp st)) = runChangeCallback st \<and>
   changes (state_of (loadLibrary en n pp st)) = changes st \<and>
   calls (state_of (loadLibrary en n pp st)) = calls st \<and>
   console (state_of (loadLibrary en n pp st)) = console st \<and>
   pasteButton (state_of (loadLibrary en n pp st)) = pasteButton st"
proof (cases "removeChildren st")
  case (Returned s)
  with removeChildren_frame[of st] show ?thesis
    by (simp add: loadLibrary_def Let_def split: option.splits jsval.splits)
next
  case (Threw e s)
  with removeChildren_frame[of st] show ?thesis
    by (simp add: loadLibrary_def)
qed

lemma removeChildren_refs:
  "params (state_of (removeChildren st)) = params st"
  "libraryName (state_of (removeChildren st)) = libraryName st"
  using removeChildren_frame[of st] by simp_all

lemma loadLibrary_refs:
  "params (state_of (loadLibrary en n pp st)) = params st"
  "libraryName (state_of (loadLibrary en n pp st)) = libraryName st"
  using loadLibrary_frame[of en n pp st] by simp_all

lemma change_refs:
  "params (state_of (change cb st)) = params st"
  "libraryName (state_of (change cb st)) = libraryName st"
  by (simp_all add: change_def split: option.splits)

lemma libraryLoaded_params_fields:
  "params (libraryLoaded_params name pp uuid st) = params st"
  "libraryName (libraryLoaded_params name pp uuid st) = libraryName st"
  "libraries (libraryLoaded_params name pp uuid st) = libraries st"
  "copyButton (libraryLoaded_params name pp uuid st) = copyButton st"
  "changes (libraryLoaded_params name pp uuid st) = changes st"
  "calls (libraryLoaded_params name pp uuid st) = calls st"
  "runChangeCallback (libraryLoaded_params name pp uuid st) = runChangeCallback st"
  "global_library (libraryLoaded_params name pp uuid st) = global_library st"
  "currentLibrary (libraryLoaded_params name pp uuid st) = Some name"
  by (simp_all add: libraryLoaded_params_def Let_def split: prod.splits)

text \<open>
  The completion of a fetch, by whether the library list has arrived. Without the list,
  \<open>findLibraryMetadataSettings\<close> throws on \<^verbatim>\<open>self.libraries.length\<close>, after the
  writes of lines 377-391.
\<close>

lemma libraryLoaded_unlisted:
  "libraries st = None \<Longrightarrow>
   libraryLoaded en name pp uuid mf kids cf st =
     Threw TypeError (libraryLoaded_params name pp uuid st)"
  by (simp add: libraryLoaded_def Let_def findLibraryMetadataSettings_def
      libraryLoaded_params_fields)

lemma libraryLoaded_listed:
  "libraries st = Some libs \<Longrightarrow>
   libraryLoaded en name pp uuid mf kids cf st =
     (let st4 = (libraryLoaded_params name pp uuid st)
                  \<lparr>global_library := find_metadata_loop libs (libraryName st) (global_library st),
                   metadataForm := (if enableMetadata en name then Some mf else None),
                   children := Some kids, commonFields := cf\<rparr>
      in if localStorage en then
           (case copyButton st of
              None \<Rightarrow> Threw TypeError st4
            | Some b \<Rightarrow> change None (st4\<lparr>copyButton := Some (toggleClass_disabled False b)\<rparr>))
         else change None st4)"
  by (simp add: libraryLoaded_def Let_def findLibraryMetadataSettings_def
      libraryLoaded_params_fields split: option.splits)

lemma libraryLoaded_refs:
  "params (state_of (libraryLoaded en name pp uuid mf kids cf st)) = params st"
  "libraryName (state_of (libraryLoaded en name pp uuid mf kids cf st)) = libraryName st"
  by (cases "libraries st";
      simp add: libraryLoaded_unlisted libraryLoaded_listed Let_def change_refs
        libraryLoaded_params_fields split: option.splits)+


lemma paste_params_refs:
  "params (state_of (paste_params clip st)) = params st"
  "libraryName (state_of (paste_params clip st)) = libraryName st"
  by (simp_all add: paste_params_def Let_def split: sum.splits prod.splits)

lemma replaceContent_confirmed_refs:
  "params (state_of (replaceContent_confirmed en clip st)) = params st"
  "libraryName (state_of (replaceContent_confirmed en clip st)) = libraryName st"
  unfolding replaceContent_confirmed_def
  by (rule and_then_keeps, simp add: paste_params_refs, simp add: Let_def loadLibrary_refs)+

lemma replaceContent_refs:
  "params (state_of (replaceContent en c clip st)) = params st"
  "libraryName (state_of (replaceContent en c clip st)) = libraryName st"
  by (auto simp: replaceContent_def ns_confirmReplace_def replaceContent_confirmed_refs
      split: sum.splits)

lemma select_changed_refs:
  "params (state_of (select_changed en v c st)) = params st"
  "libraryName (state_of (select_changed en v c st)) = libraryName st"
  by (simp_all add: select_changed_def loadLibrary_refs)

lemma datainclipboard_refs:
  "params (state_of (datainclipboard r clip st)) = params st"
  "libraryName (state_of (datainclipboard r clip st)) = libraryName st"
  by (auto simp: datainclipboard_def split: sum.splits option.splits)

lemma run_change_callback_refs:
  "params (state_of (run_change_callback st)) = params st"
  "libraryName (state_of (run_change_callback st)) = libraryName st"
  by (auto simp: run_change_callback_def change_def split: option.splits)

lemma load_default_library_refs:
  "params (state_of (load_default_library en st)) = params st"
  "libraryName (state_of (load_default_library en st)) = libraryName st"
  by (simp_all add: load_default_library_def Let_def loadLibrary_refs)

lemma librariesLoaded_refs:
  "params (state_of (librariesLoaded en clip libList st)) = params st"
  "libraryName (state_of (librariesLoaded en clip libList st)) = libraryName st"
proof -
  let ?st1 = "st\<lparr>libraries := Some libList\<rparr>"
  let ?opts = "createOption ''-'' (JStr ''-'') False #
               options_loop libList (get_prop (deref (heap ?st1) (params ?st1)) ''library'')"
  let ?st2 = "?st1\<lparr>select_options := ?opts\<rparr>"
  let ?first =
    "if length libList = 1 then
       loadLibrary en (JStr (opt_value (last ?opts))) (JBool True)
         (?st2\<lparr>select_hidden := True, label_hidden := True,
               copyButton := map_option hide (copyButton ?st2),
               pasteButton := map_option hide (pasteButton ?st2)\<rparr>)
     else if localStorage en then
       (case canPaste ?st2 clip of
          Inl e \<Rightarrow> Threw e ?st2
        | Inr ok \<Rightarrow>
            if ok then
              (case pasteButton ?st2 of
                 None \<Rightarrow> Threw TypeError ?st2
               | Some b \<Rightarrow> Returned (?st2\<lparr>pasteButton := Some (toggleClass_disabled False b)\<rparr>))
            else Returned ?st2)
     else Returned ?st2"
  have unfold: "librariesLoaded en clip libList st =
      and_then (and_then ?first run_change_callback) (load_default_library en)"
    by (simp add: librariesLoaded_def Let_def)
  have p: "params (state_of ?first) = params st"
    by (simp add: loadLibrary_refs split: sum.splits option.splits)
  have l: "libraryName (state_of ?first) = libraryName st"
    by (simp add: loadLibrary_refs split: sum.splits option.splits)
  show "params (state_of (librariesLoaded en clip libList st)) = params st"
    unfolding unfold
    by (rule and_then_keeps, rule and_then_keeps, rule p)
      (simp_all add: run_change_callback_refs load_default_library_refs)
  show "libraryName (state_of (librariesLoaded en clip libList st)) = libraryName st"
    unfolding unfold
    by (rule and_then_keeps, rule and_then_keeps, rule l)
      (simp_all add: run_change_callback_refs load_default_library_refs)
qed

section \<open>The parameter object in the store\<close>



lemma loadLibrary_heap:
  "n \<noteq> JStr ''-'' \<Longrightarrow> heap (state_of (loadLibrary en n pp st)) = heap st"
proof (cases "removeChildren st")
  case (Returned s)
  assume "n \<noteq> JStr ''-''"
  with Returned removeChildren_frame[of st] show ?thesis
    by (simp add: loadLibrary_def split: jsval.splits)
next
  case (Threw e s)
  with removeChildren_frame[of st] show ?thesis
    by (simp add: loadLibrary_def)
qed

text \<open>
  The paste of a payload without the keys \<^verbatim>\<open>hasOwnProperty\<close> and \<^verbatim>\<open>__proto__\<close> onto
  a parameter object with the default prototype and without the key
  \<^verbatim>\<open>hasOwnProperty\<close>: it returns, the object at the same address has exactly the
  payload's own keys with the payload's values, and nothing else changes.
\<close>

lemma paste_plain_payload:
  assumes "params st < length (heap st)" and "c \<noteq> params st"
    and "get_prop (deref (heap st) c) ''generic'' = JRef g" and "g \<noteq> params st"
    and "params_proto st = ObjectPrototype"
    and "\<not> hasOwnProperty (deref (heap st) (params st)) ''hasOwnProperty''"
    and "\<not> hasOwnProperty (deref (heap st) g) ''hasOwnProperty''"
    and "\<not> hasOwnProperty (deref (heap st) g) ''__proto__''"
  shows "\<exists>ob. paste_params (JRef c) st = Returned (st\<lparr>heap := store (heap st) (params st) ob\<rparr>) \<and>
           map_of ob = map_of (deref (heap st) g)"
proof -
  let ?p = "params st"
  let ?old = "deref (heap st) ?p"
  let ?src = "deref (heap st) g"
  let ?h1 = "store (heap st) ?p []"
  have m: "has_method (heap st) ObjectPrototype ?old"
    using assms(6) by (simp add: has_method_def)
  have del: "delete_own (heap st) ObjectPrototype (for_in_keys (heap st) ObjectPrototype ?old) ?old =
      Inr []"
    by (rule delete_own_all[OF m])
  have a: "deref ?h1 c = deref (heap st) c" "deref ?h1 g = ?src"
    using assms by (simp_all add: deref_store_other)
  have b: "deref ?h1 ?p = []"
    using assms by (simp add: deref_store_same)
  have again: "store ?h1 ?p ob = store (heap st) ?p ob" for ob
    by (simp add: store_def)
  have keys: "for_in_keys ?h1 ObjectPrototype ?src = map fst ?src"
    by (simp add: for_in_keys_def)
  have ms: "has_method ?h1 ObjectPrototype ?src"
    using assms(7) by (simp add: has_method_def)
  have np: "''__proto__'' \<notin> set (map fst ?src)"
    using assms(8) by (simp add: hasOwnProperty_def)
  from copy_own_plain[OF ms np, of ?p "[]" ObjectPrototype] obtain ob where
    run: "copy_own ?h1 ?p ObjectPrototype (map fst ?src) ?src ([], ObjectPrototype) =
        Inr (ob, ObjectPrototype)" and
    content: "\<forall>k. map_of ob k =
        (if k \<in> set (map fst ?src) \<and> hasOwnProperty ?src k then map_of ?src k else map_of [] k)"
    by blast
  have "map_of ob = map_of ?src"
    using content by (intro ext) (auto simp: hasOwnProperty_def map_of_eq_None_iff[symmetric])
  moreover have "paste_params (JRef c) st = Returned (st\<lparr>heap := store (heap st) ?p ob\<rparr>)"
    using assms(3,4,5) by (simp add: paste_params_def Let_def del a b again keys run)
  ultimately show ?thesis
    by blast
qed

text \<open>
  No operation assigns \<^verbatim>\<open>this.params\<close>: the selector holds the same reference after
  every operation, whether it returns or throws.
\<close>

lemma params_kept:
  "params (appendTo en anc bs st) = params st
  \<and> params (state_of (removeChildren st)) = params st
  \<and> params (state_of (loadLibrary en n pp st)) = params st
  \<and> params (state_of (libraryLoaded en name pp uuid mf kids cf st)) = params st
  \<and> params (state_of (librariesLoaded en clip libList st)) = params st
  \<and> params (state_of (change cb st)) = params st
  \<and> params (state_of (select_changed en v ok st)) = params st
  \<and> params (state_of (datainclipboard r clip st)) = params st
  \<and> params (state_of (replaceContent en ok clip st)) = params st
  \<and> params (state_of (paste_params clip st)) = params st"
  by (simp add: appendTo_def Let_def removeChildren_refs loadLibrary_refs libraryLoaded_refs
      librariesLoaded_refs change_refs select_changed_refs datainclipboard_refs
      replaceContent_refs paste_params_refs)

text \<open>
  On such a payload, when canPaste holds and the replacement is confirmed (or nothing
  is loaded), replaceContent is the paste followed by loadLibrary with
  preserveParams = true.
\<close>

lemma replaceContent_plain_payload:
  assumes "params st < length (heap st)" and "c \<noteq> params st"
    and "get_prop (deref (heap st) c) ''generic'' = JRef g" and "g \<noteq> params st"
    and "params_proto st = ObjectPrototype"
    and "\<not> hasOwnProperty (deref (heap st) (params st)) ''hasOwnProperty''"
    and "\<not> hasOwnProperty (deref (heap st) g) ''hasOwnProperty''"
    and "\<not> hasOwnProperty (deref (heap st) g) ''__proto__''"
    and "canPaste st (JRef c) = Inr True"
    and "ok \<or> \<not> truthy (get_prop (deref (heap st) (params st)) ''library'')"
  shows "\<exists>ob. replaceContent en ok (JRef c) st =
           loadLibrary en (get_prop (deref (heap st) g) ''library'') (JBool True)
             (st\<lparr>heap := store (heap st) (params st) ob\<rparr>) \<and>
           map_of ob = map_of (deref (heap st) g)"
proof -
  from paste_plain_payload[OF assms(1-8)] obtain ob where
    paste: "paste_params (JRef c) st = Returned (st\<lparr>heap := store (heap st) (params st) ob\<rparr>)"
    and content: "map_of ob = map_of (deref (heap st) g)"
    by blast
  have generic: "get_prop (deref (store (heap st) (params st) ob) c) ''generic'' = JRef g"
    using assms(2,3) by (simp add: deref_store_other)
  have lib: "get_prop (deref (store (heap st) (params st) ob) g) ''library'' =
      get_prop (deref (heap st) g) ''library''"
    using assms(4) by (simp add: deref_store_other)
  have "replaceContent en ok (JRef c) st =
      loadLibrary en (get_prop (deref (heap st) g) ''library'') (JBool True)
        (st\<lparr>heap := store (heap st) (params st) ob\<rparr>)"
    using assms(9,10)
    by (auto simp: replaceContent_def ns_confirmReplace_def replaceContent_confirmed_def
        Let_def paste generic lib)
  with content show ?thesis
    by blast
qed

section \<open>The sentinel branch, the callbacks\<close>

lemma removeChildren_returns:
  "metadataFormWrapper st \<longrightarrow> metadataButton st \<Longrightarrow> \<not> throws (removeChildren st)"
  by (auto simp: removeChildren_def Let_def split: option.splits)

lemma list_all_detached: "list_all (\<lambda>c. \<not> attached c) (ns_removeChildren cs)"
  by (simp add: ns_removeChildren_def list_all_iff)

lemma removeChildren_detaches:
  "metadataFormWrapper st \<longrightarrow> metadataButton st \<Longrightarrow> currentLibrary st \<noteq> Some ''-'' \<Longrightarrow>
   (case children (state_of (removeChildren st)) of
      None \<Rightarrow> True
    | Some cs \<Rightarrow> list_all (\<lambda>c. \<not> attached c) cs)"
  by (auto simp: removeChildren_def Let_def list_all_detached split: option.splits)

lemma removeChildren_detaches_form:
  "(case metadataForm (state_of (removeChildren st)) of
      None \<Rightarrow> True
    | Some mf \<Rightarrow>
        (case mf_children mf of
           None \<Rightarrow> True
         | Some cs \<Rightarrow> list_all (\<lambda>c. \<not> attached c) cs))"
  by (auto simp: removeChildren_def Let_def list_all_detached split: option.splits)

lemma none_branch_unfold:
  "removeChildren st = Returned s \<Longrightarrow>
   loadLibrary en (JStr ''-'') pp st =
     (let s2 = s\<lparr>heap := store (heap s) (params s)
                    (delete_prop ''metadata'' (delete_prop ''subContentId''
                       (delete_prop ''params'' (delete_prop ''library''
                          (deref (heap s) (params s)))))),
                 wrapper_class := ''libwrap''\<rparr>
      in case copyButton s of
           None \<Rightarrow> Threw TypeError s2
         | Some b \<Rightarrow> Returned (s2\<lparr>copyButton := Some (toggleClass_disabled True b)\<rparr>))"
  by (simp add: loadLibrary_def Let_def split: option.splits)

lemma removeChildren_appendTo:
  "throws (removeChildren (appendTo en anc bs st)) = throws (removeChildren st)"
  by (simp add: removeChildren_def appendTo_def Let_def split: option.splits)

lemma none_branch_throws:
  "throws (loadLibrary en (JStr ''-'') pp st) = (throws (removeChildren st) \<or> copyButton st = None)"
proof (cases "removeChildren st")
  case (Returned s)
  with removeChildren_frame[of st] show ?thesis
    by (simp add: none_branch_unfold[OF Returned] Let_def split: option.splits)
next
  case (Threw e s)
  then show ?thesis by (simp add: loadLibrary_def)
qed

text \<open>
  The completion of a fetch never changes the run-once flag: line 425 is reached only
  when \<^verbatim>\<open>this.libraries\<close> is undefined, and then line 440 has already thrown.
\<close>

lemma libraryLoaded_flag:
  "runChangeCallback (state_of (libraryLoaded en name pp uuid mf kids cf st)) =
   runChangeCallback st"
  by (cases "libraries st")
    (simp_all add: libraryLoaded_unlisted libraryLoaded_listed Let_def change_def
      libraryLoaded_params_fields split: option.splits)

section \<open>The claims\<close>

text \<open>
  C1. canPaste returns true exactly when the clipboard value is present (truthy), has a
  generic payload (truthy), a library list is loaded and the payload's library is
  strictly equal to the uberName of some descriptor of the list. With a loaded list it
  never throws and returns that condition; for an absent clipboard (undefined or null)
  it returns false.
\<close>

theorem canPaste_iff:
  "(canPaste st clip = Inr True) =
     (truthy clip \<and> truthy (read_prop (heap st) clip ''generic'') \<and>
      (\<exists>libs. libraries st = Some libs \<and>
         (\<exists>d \<in> set libs.
            JStr (uberName d) = read_prop (heap st) (read_prop (heap st) clip ''generic'') ''library'')))
   \<and> canPaste (st\<lparr>libraries := Some libs'\<rparr>) clip =
       Inr (truthy clip \<and> truthy (read_prop (heap st) clip ''generic'') \<and>
            (\<exists>d \<in> set libs'.
               JStr (uberName d) = read_prop (heap st) (read_prop (heap st) clip ''generic'') ''library''))
   \<and> canPaste st JUndefined = Inr False
   \<and> canPaste st JNull = Inr False"
  by (auto simp: canPaste_def canPaste_loop_ex split: option.splits)

text \<open>
  C2. When canPaste is false for the clipboard value, replaceContent returns after
  writing one error line to the console and nothing else: the state is the old one
  with that line added, so the parameter object (all its keys) and the current library
  are unchanged.
\<close>

theorem replaceContent_rejects:
  "canPaste st clip = Inr False \<Longrightarrow>
   replaceContent en confirmed clip st =
     Returned (st\<lparr>console := console st @ [''Tried to paste unsupported sub-content'']\<rparr>)
   \<and> params (state_of (replaceContent en confirmed clip st)) = params st
   \<and> heap (state_of (replaceContent en confirmed clip st)) = heap st
   \<and> currentLibrary (state_of (replaceContent en confirmed clip st)) = currentLibrary st"
  by (simp add: replaceContent_def)

theorem replaceContent_rejects_witness:
  "canPaste (listed ''H5P.Blanks 1.2'') (JRef 2) = Inr False \<and>
   console (state_of (replaceContent browser True (JRef 2) (listed ''H5P.Blanks 1.2''))) =
     [''Tried to paste unsupported sub-content''] \<and>
   deref (heap (state_of (replaceContent browser True (JRef 2) (listed ''H5P.Blanks 1.2'')))) 1 =
     [(''params'', JRef 0)]"
proof -
  have h: "canPaste (listed ''H5P.Blanks 1.2'') (JRef 2) = Inr False"
    by code_simp
  have c: "console (listed ''H5P.Blanks 1.2'') = []"
    by code_simp
  have d: "deref (heap (listed ''H5P.Blanks 1.2'')) 1 = [(''params'', JRef 0)]"
    by code_simp
  show ?thesis
    using replaceContent_rejects [OF h, of browser True] h c d by simp
qed

text \<open>
  C3. No operation assigns \<^verbatim>\<open>this.params\<close>, and the paste of replaceContent works on
  the object at that reference: it is meant to delete every own key of the parameter
  object and to copy every own key of the payload. On two keys of a payload the code
  does not do that. With an own key \<^verbatim>\<open>hasOwnProperty\<close> in the payload, line 264 calls
  that property: replaceContent has emptied the parameter object, throws before it has
  copied any key, and requests no load. With an own key \<^verbatim>\<open>__proto__\<close> that holds an
  object, line 265 makes that object the prototype of the parameter object instead of
  copying the key. In both cases the selector still holds the same reference.
\<close>

theorem replaceContent_shadowed_keys:
  "canPaste shadowed (JRef 2) = Inr True \<and>
   deref (heap shadowed) 3 = [(''library'', JStr ''H5P.Blanks 1.3''), (''hasOwnProperty'', JNum 1)] \<and>
   throws (replaceContent browser True (JRef 2) shadowed) \<and>
   params (state_of (replaceContent browser True (JRef 2) shadowed)) = params shadowed \<and>
   deref (heap (state_of (replaceContent browser True (JRef 2) shadowed))) (params shadowed) = [] \<and>
   fetches (state_of (replaceContent browser True (JRef 2) shadowed)) = [] \<and>
   canPaste proto_payload (JRef 2) = Inr True \<and>
   deref (heap proto_payload) 3 = [(''library'', JStr ''H5P.Blanks 1.3''), (''__proto__'', JRef 4)] \<and>
   \<not> throws (replaceContent browser True (JRef 2) proto_payload) \<and>
   params (state_of (replaceContent browser True (JRef 2) proto_payload)) = params proto_payload \<and>
   deref (heap (state_of (replaceContent browser True (JRef 2) proto_payload)))
     (params proto_payload) = [(''library'', JStr ''H5P.Blanks 1.3'')] \<and>
   params_proto (state_of (replaceContent browser True (JRef 2) proto_payload)) = ObjectAt 4"
  by code_simp

text \<open>
  C4, as the code has it. On a selector whose copy button selection exists, whose
  current library is not the sentinel, whose old metadata wrapper (if any) has its
  button, and whose parameter object is in the store, loadLibrary with the sentinel
  returns. It has deleted the keys library, params, subContentId and metadata from the
  parameter object in place and kept every other key and every other object; every
  child field and every metadata-form child is detached; no schema fetch is issued;
  the current library, the library list, the registered callbacks, their invocations,
  the run-once flag, the option list, the console and the paste button are unchanged.
  It also resets the class of the wrapper to \<^verbatim>\<open>libwrap\<close> and disables the copy button.
\<close>

theorem loadLibrary_none:
  assumes "copyButton st = Some b"
    and "currentLibrary st \<noteq> Some ''-''"
    and "metadataFormWrapper st \<longrightarrow> metadataButton st"
    and "params st < length (heap st)"
  shows
   "(let st' = state_of (loadLibrary en (JStr ''-'') pp st);
         old = deref (heap st) (params st);
         new = deref (heap st') (params st)
     in \<not> throws (loadLibrary en (JStr ''-'') pp st)
      \<and> params st' = params st
      \<and> (\<forall>k. get_prop new k =
               (if k \<in> {''library'', ''params'', ''subContentId'', ''metadata''}
                then JUndefined else get_prop old k))
      \<and> (\<forall>k. hasOwnProperty new k =
               (hasOwnProperty old k \<and>
                k \<notin> {''library'', ''params'', ''subContentId'', ''metadata''}))
      \<and> (\<forall>a. a \<noteq> params st \<longrightarrow> deref (heap st') a = deref (heap st) a)
      \<and> (case children st' of
            None \<Rightarrow> True
          | Some cs \<Rightarrow> list_all (\<lambda>c. \<not> attached c) cs)
      \<and> (case metadataForm st' of
            None \<Rightarrow> True
          | Some mf \<Rightarrow>
              (case mf_children mf of
                 None \<Rightarrow> True
               | Some cs \<Rightarrow> list_all (\<lambda>c. \<not> attached c) cs))
      \<and> fetches st' = fetches st
      \<and> currentLibrary st' = currentLibrary st
      \<and> libraries st' = libraries st
      \<and> changes st' = changes st
      \<and> calls st' = calls st
      \<and> runChangeCallback st' = runChangeCallback st
      \<and> select_options st' = select_options st
      \<and> console st' = console st
      \<and> pasteButton st' = pasteButton st
      \<and> wrapper_class st' = ''libwrap''
      \<and> copyButton st' = Some (toggleClass_disabled True b))"
proof -
  from removeChildren_returns[OF assms(3)] obtain s where s: "removeChildren st = Returned s"
    by (cases "removeChildren st") auto
  have fr: "params s = params st" "heap s = heap st" "copyButton s = copyButton st"
    "fetches s = fetches st" "wrapper_class s = wrapper_class st"
    using removeChildren_frame[of st] s by simp_all
  have kids: "(case children s of None \<Rightarrow> True | Some cs \<Rightarrow> list_all (\<lambda>c. \<not> attached c) cs)"
    using removeChildren_detaches[OF assms(3) assms(2)] s by simp
  have form: "(case metadataForm s of
      None \<Rightarrow> True
    | Some mf \<Rightarrow>
        (case mf_children mf of
           None \<Rightarrow> True
         | Some cs \<Rightarrow> list_all (\<lambda>c. \<not> attached c) cs))"
    using removeChildren_detaches_form[of st] s by simp
  have res: "loadLibrary en (JStr ''-'') pp st =
      Returned (s\<lparr>heap := store (heap st) (params st)
                    (delete_prop ''metadata'' (delete_prop ''subContentId''
                       (delete_prop ''params'' (delete_prop ''library''
                          (deref (heap st) (params st)))))),
                 wrapper_class := ''libwrap'',
                 copyButton := Some (toggleClass_disabled True b)\<rparr>)"
    using assms(1) by (simp add: none_branch_unfold[OF s] fr Let_def)
  show ?thesis
    using loadLibrary_frame[of en "JStr ''-''" pp st] kids form assms(4)
    by (simp add: Let_def res fr deref_store_same deref_store_other get_delete_prop
        hasOwn_delete_prop) auto
qed

theorem loadLibrary_none_witness:
  "copyButton loaded = Some [\<lparr>disabled = False, hidden = False\<rparr>] \<and>
   currentLibrary loaded \<noteq> Some ''-'' \<and>
   \<not> metadataFormWrapper loaded \<and>
   params loaded < length (heap loaded) \<and>
   get_prop (deref (heap (state_of (loadLibrary browser (JStr ''-'') JUndefined loaded)))
      (params loaded)) ''library'' = JUndefined \<and>
   fetches (state_of (loadLibrary browser (JStr ''-'') JUndefined loaded)) =
     [(''H5P.Blanks 1.3'', JUndefined)] \<and>
   copyButton (state_of (loadLibrary browser (JStr ''-'') JUndefined loaded)) =
     Some [\<lparr>disabled = True, hidden = False\<rparr>]"
proof -
  have h1: "copyButton loaded = Some [\<lparr>disabled = False, hidden = False\<rparr>]"
    by code_simp
  have h2: "currentLibrary loaded \<noteq> Some ''-''"
    by code_simp
  have h3: "\<not> metadataFormWrapper loaded"
    by code_simp
  then have h3': "metadataFormWrapper loaded \<longrightarrow> metadataButton loaded"
    by simp
  have h4: "params loaded < length (heap loaded)"
    by code_simp
  have f: "fetches loaded = [(''H5P.Blanks 1.3'', JUndefined)]"
    by code_simp
  note t = loadLibrary_none [OF h1 h2 h3' h4, of browser JUndefined]
  have a: "get_prop (deref (heap (state_of (loadLibrary browser (JStr ''-'') JUndefined loaded)))
      (params loaded)) ''library'' = JUndefined"
    using t by (simp add: Let_def)
  have b: "fetches (state_of (loadLibrary browser (JStr ''-'') JUndefined loaded)) = fetches loaded"
    using t by (simp add: Let_def)
  have c: "copyButton (state_of (loadLibrary browser (JStr ''-'') JUndefined loaded)) =
      Some (toggleClass_disabled True [\<lparr>disabled = False, hidden = False\<rparr>])"
    using t by (simp add: Let_def)
  show ?thesis
    using a b c h1 h2 h3 h4 f by (simp add: toggleClass_disabled_def)
qed

text \<open>
  C4 as stated fails. In a browser without \<^verbatim>\<open>window.localStorage\<close> the call does not
  return: it throws. And where it returns, other state has changed: the copy button
  that was enabled is disabled and the wrapper has lost its editor class.
\<close>

theorem loadLibrary_none_counterexample:
  "throws (loadLibrary no_storage (JStr ''-'') JUndefined (fresh no_storage)) \<and>
   copyButton loaded = Some [\<lparr>disabled = False, hidden = False\<rparr>] \<and>
   copyButton (state_of (loadLibrary browser (JStr ''-'') JUndefined loaded)) =
     Some [\<lparr>disabled = True, hidden = False\<rparr>] \<and>
   wrapper_class loaded = ''libwrap h5p-blanks-editor'' \<and>
   wrapper_class (state_of (loadLibrary browser (JStr ''-'') JUndefined loaded)) = ''libwrap''"
  by code_simp



text \<open>
  C6, as the code has it. validate returns true exactly when the slot is optional, or
  no child of the metadata form and no child field returns false from its validate,
  where a selector without a child list is valid only while the library list is absent
  or empty. So an optional selector is valid; a required selector without a child list
  is invalid once a non-empty library list has arrived; a required selector without a
  child list and without a metadata form is valid while the library list is absent or
  empty. Whether a library is selected is not tested.
\<close>

theorem validate_eq:
  "validate st =
     (truthy (field_optional st) \<or>
      ((case metadataForm st of
          Some mf \<Rightarrow>
            (case mf_children mf of
               Some cs \<Rightarrow> list_all (\<lambda>c. validate_result c \<noteq> JBool False) cs
             | None \<Rightarrow> True)
        | None \<Rightarrow> True) \<and>
       (case children st of
          Some cs \<Rightarrow> list_all (\<lambda>c. validate_result c \<noteq> JBool False) cs
        | None \<Rightarrow> libraries st = None \<or> libraries st = Some [])))
   \<and> (truthy (field_optional st) \<longrightarrow> validate st)
   \<and> (\<not> truthy (field_optional st) \<and> children st = None \<and> libraries st = Some (l # ls) \<longrightarrow>
        \<not> validate st)
   \<and> (\<not> truthy (field_optional st) \<and> children st = None \<and> metadataForm st = None \<and>
       (libraries st = None \<or> libraries st = Some []) \<longrightarrow> validate st)"
  by (auto simp: validate_def validate_children_all split: option.splits)

theorem validate_eq_witness:
  "truthy (field_optional optional_fresh) \<and>
   validate optional_fresh \<and>
   \<not> truthy (field_optional (listed ''H5P.Blanks 1.3'')) \<and>
   children (listed ''H5P.Blanks 1.3'') = None \<and>
   libraries (listed ''H5P.Blanks 1.3'') = Some [blanks, quiz] \<and>
   \<not> validate (listed ''H5P.Blanks 1.3'') \<and>
   \<not> truthy (field_optional (fresh browser)) \<and>
   children (fresh browser) = None \<and>
   metadataForm (fresh browser) = None \<and>
   libraries (fresh browser) = None \<and>
   validate (fresh browser)"
proof -
  have o: "truthy (field_optional optional_fresh)"
    by code_simp
  have l: "\<not> truthy (field_optional (listed ''H5P.Blanks 1.3''))"
    "children (listed ''H5P.Blanks 1.3'') = None"
    "libraries (listed ''H5P.Blanks 1.3'') = Some [blanks, quiz]"
    by code_simp+
  have f: "\<not> truthy (field_optional (fresh browser))" "children (fresh browser) = None"
    "metadataForm (fresh browser) = None" "libraries (fresh browser) = None"
    by code_simp+
  have a: "validate optional_fresh"
    using validate_eq [of optional_fresh] o by blast
  have b: "\<not> validate (listed ''H5P.Blanks 1.3'')"
    using validate_eq [of "listed ''H5P.Blanks 1.3''" blanks "[quiz]"] l by blast
  have c: "validate (fresh browser)"
    using validate_eq [of "fresh browser"] f by blast
  show ?thesis
    using a b c o l f by simp
qed

text \<open>
  C6 as stated fails: a required selector that has just been appended, with no library
  selected and the library list not yet delivered, validates. And a required selector
  on which "none" has been selected after a load validates although the library list
  is there: the removed children are still its child list.
\<close>

theorem validate_counterexample:
  "validate (fresh browser) \<and>
   \<not> truthy (field_optional (fresh browser)) \<and>
   currentLibrary (fresh browser) = None \<and>
   get_prop (deref (heap (fresh browser)) (params (fresh browser))) ''library'' = JUndefined \<and>
   validate (state_of (loadLibrary browser (JStr ''-'') JUndefined loaded)) \<and>
   \<not> truthy (field_optional (state_of (loadLibrary browser (JStr ''-'') JUndefined loaded))) \<and>
   libraries (state_of (loadLibrary browser (JStr ''-'') JUndefined loaded)) =
     Some [blanks, quiz] \<and>
   get_prop (deref (heap (state_of (loadLibrary browser (JStr ''-'') JUndefined loaded)))
               (params loaded)) ''library'' = JUndefined"
  by code_simp

text \<open>
  C7, as the code has it. After librariesLoaded the option list is the "none" option
  followed, in the order of the list, by one option for each descriptor that is
  currently selected (its uberName is the parameter object's library) or that has a
  defined title and is not restricted; an option is marked selected exactly when its
  descriptor is the currently selected one.
\<close>

theorem librariesLoaded_options:
  "select_options (state_of (librariesLoaded en clip libList st)) =
     createOption ''-'' (JStr ''-'') False #
     map (\<lambda>d. createOption (uberName d) (title d)
                 (JStr (uberName d) = get_prop (deref (heap st) (params st)) ''library''))
       (filter (\<lambda>d. JStr (uberName d) = get_prop (deref (heap st) (params st)) ''library'' \<or>
                     (title d \<noteq> JUndefined \<and> \<not> truthy (restricted d))) libList)"
proof -
  have run: "select_options (state_of (run_change_callback s)) = select_options s" for s
    by (auto simp: run_change_callback_def change_def split: option.splits)
  have dflt: "select_options (state_of (load_default_library en s)) = select_options s" for s
    using loadLibrary_frame by (simp add: load_default_library_def Let_def)
  show ?thesis
    unfolding librariesLoaded_def Let_def
    by (rule and_then_keeps, rule and_then_keeps)
      (simp_all add: run dflt loadLibrary_frame options_loop_filter
        split: sum.splits option.splits)
qed

text \<open>
  C7 as stated fails: the currently selected descriptor is listed even though its title
  is undefined.
\<close>

theorem librariesLoaded_options_counterexample:
  "title untitled = JUndefined \<and>
   select_options (state_of (librariesLoaded browser JUndefined [untitled, quiz] saved)) =
     [createOption ''-'' (JStr ''-'') False,
      createOption ''H5P.Blanks 1.3'' JUndefined True,
      createOption ''H5P.QuestionSet 1.17'' (JStr ''Quiz'') False]"
  by code_simp

text \<open>
  C8, as the code has it. change with a callback only appends it to the list: nothing
  is invoked and the run-once flag stays as it is. change without an argument invokes
  every registered callback, in registration order, with the first descriptor of the
  library list whose uberName is the current library (undefined when there is none),
  and keeps them registered; so a callback registered at any time, also after a load has fired,
  is invoked by the next such call and not before. The completion of a fetch makes
  that call when the library list is present (on a selector whose copy button
  selection exists where \<^verbatim>\<open>window.localStorage\<close> does).
\<close>

theorem change_callbacks:
  "change (Some cb) st = Returned (st\<lparr>changes := changes st @ [cb]\<rparr>)
   \<and> calls (state_of (change (Some cb) st)) = calls st
   \<and> runChangeCallback (state_of (change (Some cb) st)) = runChangeCallback st
   \<and> change None (st\<lparr>libraries := Some libs\<rparr>) =
       Returned (st\<lparr>libraries := Some libs,
                   calls := calls st @
                     map (\<lambda>c. (c, find (\<lambda>d. Some (uberName d) = currentLibrary st) libs))
                       (changes st)\<rparr>)
   \<and> calls (state_of (change None (state_of (change (Some cb) (st\<lparr>libraries := Some libs\<rparr>))))) =
       calls st @
       map (\<lambda>c. (c, find (\<lambda>d. Some (uberName d) = currentLibrary st) libs)) (changes st @ [cb])
   \<and> (libraries st = Some libs \<and> (localStorage en \<longrightarrow> copyButton st \<noteq> None) \<longrightarrow>
        calls (state_of (libraryLoaded en name pp uuid mf kids cf st)) =
          calls st @ map (\<lambda>c. (c, find (\<lambda>d. uberName d = name) libs)) (changes st))"
proof -
  have one: "change (Some cb) st = Returned (st\<lparr>changes := changes st @ [cb]\<rparr>)"
    by (simp add: change_def)
  have two: "change None (st\<lparr>libraries := Some libs\<rparr>) =
       Returned (st\<lparr>libraries := Some libs,
                   calls := calls st @
                     map (\<lambda>c. (c, find (\<lambda>d. Some (uberName d) = currentLibrary st) libs))
                       (changes st)\<rparr>)"
    by (simp add: change_def run_callbacks_map change_find_find)
  have three: "calls (state_of (change None (state_of (change (Some cb) (st\<lparr>libraries := Some libs\<rparr>))))) =
       calls st @
       map (\<lambda>c. (c, find (\<lambda>d. Some (uberName d) = currentLibrary st) libs)) (changes st @ [cb])"
    by (simp add: change_def run_callbacks_map change_find_find)
  have four: "libraries st = Some libs \<and> (localStorage en \<longrightarrow> copyButton st \<noteq> None) \<longrightarrow>
        calls (state_of (libraryLoaded en name pp uuid mf kids cf st)) =
          calls st @ map (\<lambda>c. (c, find (\<lambda>d. uberName d = name) libs)) (changes st)"
    by (auto simp: libraryLoaded_listed Let_def change_def run_callbacks_map change_find_find
        libraryLoaded_params_fields)
  show ?thesis
    using two three four by (simp add: one)
qed

theorem change_callbacks_witness:
  "libraries registered = Some [blanks, quiz] \<and>
   localStorage browser \<and>
   copyButton registered \<noteq> None \<and>
   changes registered = [7] \<and>
   calls registered = [] \<and>
   calls (state_of (libraryLoaded browser ''H5P.Blanks 1.3'' JUndefined ''uuid-1'' empty_form
                      [field_child] [] registered)) = [(7, Some blanks)]"
proof -
  have h1: "libraries registered = Some [blanks, quiz]"
    by code_simp
  have h2: "copyButton registered \<noteq> None"
    by code_simp
  have h3: "localStorage browser"
    by code_simp
  have v: "calls registered = []" "changes registered = [7]"
    by code_simp+
  have n: "uberName blanks = ''H5P.Blanks 1.3''"
    by code_simp
  have a: "calls (state_of (libraryLoaded browser ''H5P.Blanks 1.3'' JUndefined ''uuid-1''
                      empty_form [field_child] [] registered)) =
      calls registered @
      map (\<lambda>c. (c, find (\<lambda>d. uberName d = ''H5P.Blanks 1.3'') [blanks, quiz])) (changes registered)"
    using change_callbacks [where en = browser and st = registered and libs = "[blanks, quiz]"]
      h1 h2 by blast
  show ?thesis
    using a h1 h2 h3 by (simp add: v n)
qed

text \<open>
  C8 as stated fails: after a load has fired, registering a callback neither invokes it
  nor sets the run-once flag, and the only fetch that was requested has completed; the
  callback waits for another load.
\<close>

theorem change_callbacks_counterexample:
  "currentLibrary loaded = Some ''H5P.Blanks 1.3'' \<and>
   fetches loaded = [(''H5P.Blanks 1.3'', JUndefined)] \<and>
   changes (state_of (change (Some 7) loaded)) = [7] \<and>
   calls (state_of (change (Some 7) loaded)) = [] \<and>
   \<not> runChangeCallback (state_of (change (Some 7) loaded))"
  by code_simp

text \<open>
  C9. With a library list present, findLibraryMetadataSettings returns the default
  object for every library name and every descriptor list: the local it returns is
  never assigned (the loop writes the global \<^verbatim>\<open>library\<close>). The field it compares with,
  \<^verbatim>\<open>self.libraryName\<close>, is undefined after construction and no operation assigns it, and
  with it undefined the loop matches no descriptor and writes nothing.
\<close>

theorem findLibraryMetadataSettings_default:
  "findLibraryMetadataSettings en (st\<lparr>libraries := Some libs\<rparr>) name =
     Inr (\<lparr>disable = JBool (\<not> enableMetadata en name), disableExtraTitleField = JBool False\<rparr>,
          st\<lparr>libraries := Some libs,
             global_library := find_metadata_loop libs (libraryName st) (global_library st)\<rparr>)
   \<and> find_metadata_loop libs JUndefined g = g
   \<and> libraryName (Library i h opt ps) = JUndefined
   \<and> libraryName (appendTo en anc bs st) = libraryName st
   \<and> libraryName (state_of (loadLibrary en n pp st)) = libraryName st
   \<and> libraryName (state_of (libraryLoaded en name pp uuid mf kids cf st)) = libraryName st
   \<and> libraryName (state_of (librariesLoaded en clip libList st)) = libraryName st
   \<and> libraryName (state_of (replaceContent en c clip st)) = libraryName st
   \<and> libraryName (state_of (change cb st)) = libraryName st
   \<and> libraryName (state_of (removeChildren st)) = libraryName st
   \<and> libraryName (state_of (select_changed en v c st)) = libraryName st
   \<and> libraryName (state_of (datainclipboard r clip st)) = libraryName st"
proof -
  have loop: "find_metadata_loop libs JUndefined g = g"
    by (induction libs) auto
  have new: "libraryName (Library i h opt ps) = JUndefined"
    by (simp add: Library_def Let_def split: prod.splits option.splits)
  show ?thesis
    by (simp add: findLibraryMetadataSettings_def loop new appendTo_def Let_def
        loadLibrary_refs libraryLoaded_refs librariesLoaded_refs replaceContent_refs
        change_refs removeChildren_refs select_changed_refs datainclipboard_refs)
qed

text \<open>
  C10, as the code has it. appendTo assigns \<^verbatim>\<open>$copyButton\<close> exactly when
  \<^verbatim>\<open>window.localStorage\<close> is there; the selection holds the button when copy and paste
  is enabled for the ancestor and is empty otherwise. loadLibrary with the sentinel
  throws exactly when removeChildren throws or \<^verbatim>\<open>$copyButton\<close> is undefined, so on an
  appended selector exactly when removeChildren throws or \<^verbatim>\<open>window.localStorage\<close> is
  missing; at that throw the four keys are already deleted. The branch after a load
  tests \<^verbatim>\<open>window.localStorage\<close> first: without it, and with the library list present,
  the completion of a fetch does not throw and leaves \<^verbatim>\<open>$copyButton\<close> alone.
\<close>

theorem sentinel_throws:
  "copyButton (appendTo en anc bs st) =
     (if localStorage en then Some (if enableCopyAndPaste anc then [fst bs] else []) else None)
   \<and> throws (loadLibrary en (JStr ''-'') pp st) =
       (throws (removeChildren st) \<or> copyButton st = None)
   \<and> throws (loadLibrary en (JStr ''-'') pp (appendTo en anc bs st)) =
       (throws (removeChildren st) \<or> \<not> localStorage en)
   \<and> (copyButton st = None \<and> \<not> throws (removeChildren st) \<and> params st < length (heap st) \<longrightarrow>
        (\<forall>k \<in> {''library'', ''params'', ''subContentId'', ''metadata''}.
           get_prop (deref (heap (state_of (loadLibrary en (JStr ''-'') pp st))) (params st)) k =
             JUndefined))
   \<and> (libraries st \<noteq> None \<and> \<not> localStorage en \<longrightarrow>
        \<not> throws (libraryLoaded en name pp uuid mf kids cf st) \<and>
        copyButton (state_of (libraryLoaded en name pp uuid mf kids cf st)) = copyButton st)"
proof -
  have a: "copyButton (appendTo en anc bs st) =
     (if localStorage en then Some (if enableCopyAndPaste anc then [fst bs] else []) else None)"
    by (simp add: appendTo_def Let_def)
  have keys: "copyButton st = None \<and> \<not> throws (removeChildren st) \<and> params st < length (heap st) \<longrightarrow>
        (\<forall>k \<in> {''library'', ''params'', ''subContentId'', ''metadata''}.
           get_prop (deref (heap (state_of (loadLibrary en (JStr ''-'') pp st))) (params st)) k =
             JUndefined)"
  proof (cases "removeChildren st")
    case (Returned s)
    with removeChildren_frame[of st] show ?thesis
      by (auto simp: none_branch_unfold[OF Returned] Let_def deref_store_same get_delete_prop)
  next
    case (Threw e s)
    then show ?thesis by simp
  qed
  have post: "libraries st \<noteq> None \<and> \<not> localStorage en \<longrightarrow>
        \<not> throws (libraryLoaded en name pp uuid mf kids cf st) \<and>
        copyButton (state_of (libraryLoaded en name pp uuid mf kids cf st)) = copyButton st"
    by (auto simp: libraryLoaded_listed Let_def change_def libraryLoaded_params_fields)
  show ?thesis
    using keys post
    by (simp only: a none_branch_throws removeChildren_appendTo) auto
qed

theorem sentinel_throws_witness:
  "copyButton (fresh no_storage) = None \<and>
   \<not> throws (removeChildren (fresh no_storage)) \<and>
   params (fresh no_storage) < length (heap (fresh no_storage)) \<and>
   throws (loadLibrary no_storage (JStr ''-'') JUndefined (fresh no_storage)) \<and>
   get_prop (deref (heap (state_of (loadLibrary no_storage (JStr ''-'') JUndefined
                                      (fresh no_storage))))
               (params (fresh no_storage))) ''params'' = JUndefined \<and>
   libraries listed_no_storage \<noteq> None \<and>
   \<not> localStorage no_storage \<and>
   \<not> throws (libraryLoaded no_storage ''H5P.Blanks 1.3'' JUndefined ''uuid-1'' empty_form
               [field_child] [] listed_no_storage)"
proof -
  have h1: "copyButton (fresh no_storage) = None"
    by code_simp
  have h2: "\<not> throws (removeChildren (fresh no_storage))"
    by code_simp
  have h3: "params (fresh no_storage) < length (heap (fresh no_storage))"
    by code_simp
  have h4: "libraries listed_no_storage \<noteq> None"
    by code_simp
  have h5: "\<not> localStorage no_storage"
    by code_simp
  note t = sentinel_throws [where en = no_storage and pp = JUndefined]
  have a: "throws (loadLibrary no_storage (JStr ''-'') JUndefined (fresh no_storage))"
    using t [where st = "fresh no_storage"] h1 by blast
  have b: "get_prop (deref (heap (state_of (loadLibrary no_storage (JStr ''-'') JUndefined
                                      (fresh no_storage))))
               (params (fresh no_storage))) ''params'' = JUndefined"
    using t [where st = "fresh no_storage"] h1 h2 h3 by blast
  have c: "\<not> throws (libraryLoaded no_storage ''H5P.Blanks 1.3'' JUndefined ''uuid-1'' empty_form
               [field_child] [] listed_no_storage)"
    using t [where st = listed_no_storage] h4 h5 by blast
  show ?thesis
    using a b c h1 h2 h3 h4 h5 by simp
qed

text \<open>
  C10 as stated fails: under an ancestor whose content type handles copy and paste
  itself the buttons are never created, yet \<^verbatim>\<open>window.localStorage\<close> is there, the
  selection is empty and selecting "none" completes.
\<close>

theorem sentinel_throws_counterexample:
  "\<not> enableCopyAndPaste (Some old_presentation) \<and>
   copyButton (appendTo browser (Some old_presentation) (button, button)
                 (Library 0 [] (JBool False) None)) = Some [] \<and>
   \<not> throws (loadLibrary browser (JStr ''-'') JUndefined
               (appendTo browser (Some old_presentation) (button, button)
                  (Library 0 [] (JBool False) None)))"
  by code_simp

end
